theory Spec2Isabelle
  imports Complex_Main
begin

section \<open>Python values, exceptions and printed output\<close>

text \<open>
  The scripts handle untyped JSON: what \<open>json.load\<close> and \<open>Response.json\<close> return.
  A dict is kept as the list of its items; \<open>map_of\<close> is the lookup.
\<close>

datatype pyval =
    PNone
  | PBool bool
  | PInt int
  | PFloat real
  | PStr string
  | PList "pyval list"
  | PDict "(string \<times> pyval) list"

text \<open>
  The exceptions the scripts can meet, all subclasses of Python's \<open>Exception\<close>
  (what \<open>except Exception\<close> catches). \<open>InvalidFilterError\<close> is the Knowledge Store's.
\<close>

datatype error =
    AttributeError
  | TypeError
  | KeyError string
  | JSONDecodeError
  | OSError
  | RequestError
  | InvalidFilterError
  | OtherError string

type_synonym filters = "(string \<times> pyval) list"

record document =
  content :: pyval
  name :: pyval
  meta_data :: "(string \<times> pyval) list"

text \<open>Every \<open>print\<close> of the scripts, one constructor per format string.\<close>

datatype printed =
    FoundFiles nat
  | GeneratedDocument string pyval
  | ErrorProcessing string error
  | GeneratedCount nat
  | Loaded nat
  | ErrorLoading error
  | NoDocuments
  | SavedPost pyval string
  | FailedInit error

definition bind_err :: "error + 'a \<Rightarrow> ('a \<Rightarrow> error + 'b) \<Rightarrow> error + 'b" where
  "bind_err r f = (case r of Inl e \<Rightarrow> Inl e | Inr v \<Rightarrow> f v)"

text \<open>\<open>obj.get(key, default)\<close>: only a dict has the method.\<close>

fun py_get :: "pyval \<Rightarrow> string \<Rightarrow> pyval \<Rightarrow> error + pyval" where
  "py_get (PDict kvs) k d = Inr (case map_of kvs k of None \<Rightarrow> d | Some v \<Rightarrow> v)"
| "py_get _ k d = Inl AttributeError"

text \<open>\<open>obj[key]\<close> with a string key: KeyError on a dict without it, TypeError elsewhere.\<close>

fun py_getitem :: "pyval \<Rightarrow> string \<Rightarrow> error + pyval" where
  "py_getitem (PDict kvs) k = (case map_of kvs k of None \<Rightarrow> Inl (KeyError k) | Some v \<Rightarrow> Inr v)"
| "py_getitem _ k = Inl TypeError"

text \<open>
  \<open>for x in obj\<close>: a list gives its elements, a dict its keys, a string its
  characters; nothing else that JSON produces is iterable.
\<close>

fun py_iter :: "pyval \<Rightarrow> error + pyval list" where
  "py_iter (PList xs) = Inr xs"
| "py_iter (PDict kvs) = Inr (map (\<lambda>kv. PStr (fst kv)) kvs)"
| "py_iter (PStr s) = Inr (map (\<lambda>c. PStr [c]) s)"
| "py_iter _ = Inl TypeError"

section \<open>load\_posts.py\<close>

subsection \<open>create\_document\_metadata\<close>

definition create_document_metadata :: "pyval \<Rightarrow> error + (document \<times> filters)" where
  "create_document_metadata post_data =
     bind_err (py_get post_data ''tags'' (PList [])) (\<lambda>tags.
     bind_err (py_get post_data ''reactions'' (PDict [])) (\<lambda>reactions.
     bind_err (py_get post_data ''views'' (PInt 0)) (\<lambda>views.
     bind_err (py_get post_data ''userId'' (PInt 0)) (\<lambda>user_id.
     bind_err (py_getitem post_data ''body'') (\<lambda>body.
     bind_err (py_getitem post_data ''title'') (\<lambda>title.
       Inr (\<lparr>content = body, name = title,
              meta_data = [(''tags'', tags), (''reactions'', reactions), (''views'', views)]\<rparr>,
            [(''user_id'', user_id)])))))))"

subsection \<open>generate\_documents\<close>

text \<open>
  A file of \<open>knowledge/files/*.json\<close>: its name and what \<open>open\<close> followed by
  \<open>json.load\<close> gives, the parsed value or the exception raised.
\<close>

record json_file =
  file_name :: string
  loaded :: "error + pyval"

text \<open>
  The \<open>for\<close> loop of generate\_documents. \<open>documents\<close> and \<open>out\<close> are the list
  built so far and the lines printed so far. The \<open>try\<close> is inside the loop: an
  exception of one file is printed and the loop goes on. The success line is printed
  after the append, so an exception there would leave the pair appended.
\<close>

fun generate_loop ::
  "json_file list \<Rightarrow> (document \<times> filters) list \<Rightarrow> printed list
     \<Rightarrow> (document \<times> filters) list \<times> printed list" where
  "generate_loop [] documents out = (documents, out)"
| "generate_loop (f # fs) documents out =
     (case loaded f of
        Inl e \<Rightarrow> generate_loop fs documents (out @ [ErrorProcessing (file_name f) e])
      | Inr post_data \<Rightarrow>
          (case create_document_metadata post_data of
             Inl e \<Rightarrow> generate_loop fs documents (out @ [ErrorProcessing (file_name f) e])
           | Inr pair \<Rightarrow>
               (case py_get post_data ''title'' (PStr ''No title'') of
                  Inl e \<Rightarrow>
                    generate_loop fs (documents @ [pair])
                      (out @ [ErrorProcessing (file_name f) e])
                | Inr title \<Rightarrow>
                    generate_loop fs (documents @ [pair])
                      (out @ [GeneratedDocument (file_name f) title]))))"

definition generate_documents ::
  "json_file list \<Rightarrow> (document \<times> filters) list \<times> printed list" where
  "generate_documents json_files =
     (case generate_loop json_files [] [FoundFiles (length json_files)] of
        (documents, out) \<Rightarrow> (documents, out @ [GeneratedCount (length documents)]))"

subsection \<open>load\_posts\<close>

text \<open>
  What a program asks of the knowledge base, in the order it asks:
  initialize\_knowledge\_filters, \<open>load_documents\<close> (a write), a search.
\<close>

datatype call =
    InitFilters
  | LoadDocuments document filters
  | Search string filters

text \<open>
  \<open>social_media_knowledge_base.load_documents\<close> belongs to the agno library: it is
  the parameter \<open>ld\<close>, from the database state, the document and its filters to the
  exception raised, if any, and the new database state.

  The \<open>try\<close> of load\_posts is around the whole loop: the first exception leaves it.
\<close>

fun load_loop ::
  "('db \<Rightarrow> document \<Rightarrow> filters \<Rightarrow> error option \<times> 'db) \<Rightarrow> 'db
     \<Rightarrow> (document \<times> filters) list \<Rightarrow> call list \<Rightarrow> error option \<times> 'db \<times> call list" where
  "load_loop ld db [] calls = (None, db, calls)"
| "load_loop ld db (p # rest) calls =
     (case ld db (fst p) (snd p) of
        (Some e, db') \<Rightarrow> (Some e, db', calls @ [LoadDocuments (fst p) (snd p)])
      | (None, db') \<Rightarrow> load_loop ld db' rest (calls @ [LoadDocuments (fst p) (snd p)]))"

text \<open>
  The result of a program: \<open>Inl e\<close> when the exception \<open>e\<close> leaves it, \<open>Inr v\<close>
  when it returns \<open>v\<close>; then the state it leaves, its calls and its printed lines.
\<close>

definition load_posts ::
  "('db \<Rightarrow> document \<Rightarrow> filters \<Rightarrow> error option \<times> 'db) \<Rightarrow> 'db \<Rightarrow> json_file list
     \<Rightarrow> (error + pyval) \<times> 'db \<times> call list \<times> printed list" where
  "load_posts ld db json_files =
     (case generate_documents json_files of
        (doc_filter_pairs, out) \<Rightarrow>
          if doc_filter_pairs \<noteq> [] then
            (case load_loop ld db doc_filter_pairs [] of
               (None, db', calls) \<Rightarrow>
                 (Inr PNone, db', calls, out @ [Loaded (length doc_filter_pairs)])
             | (Some e, db', calls) \<Rightarrow> (Inr PNone, db', calls, out @ [ErrorLoading e]))
          else (Inr PNone, db, [], out @ [NoDocuments]))"

text \<open>The exit code of a script run as \<open>__main__\<close>: 1 when an exception leaves it.\<close>

definition exit_code :: "error + pyval \<Rightarrow> nat" where
  "exit_code r = (case r of Inl e \<Rightarrow> 1 | Inr v \<Rightarrow> 0)"

section \<open>valid\_filters.py\<close>

text \<open>
  The argument is any object. Of it the function touches one attribute,
  \<open>valid_metadata_filters\<close>: absent, a set of strings, or another value (\<open>None\<close>
  among them), none of which has a method \<open>add\<close>. \<open>frozen\<close> says that the object
  refuses assignment to its attributes.
\<close>

datatype attribute = Absent | Holds pyval | HoldsSet "string set"

record knowledge_base =
  valid_metadata_filters :: attribute
  frozen :: bool

text \<open>\<open>knowledge_base.valid_metadata_filters.add(key)\<close>\<close>

definition set_add :: "string \<Rightarrow> knowledge_base \<Rightarrow> error option \<times> knowledge_base" where
  "set_add key kb =
     (case valid_metadata_filters kb of
        HoldsSet s \<Rightarrow> (None, kb\<lparr>valid_metadata_filters := HoldsSet (insert key s)\<rparr>)
      | _ \<Rightarrow> (Some AttributeError, kb))"

text \<open>
  The statements under \<open>try\<close> (lines 9 to 13), with the key they add as an argument:
  the registration of a filter key. The result is the exception raised, if any, and the
  object as the statements leave it.
\<close>

definition register_filter_key :: "string \<Rightarrow> knowledge_base \<Rightarrow> error option \<times> knowledge_base" where
  "register_filter_key key kb =
     (case valid_metadata_filters kb of
        Absent \<Rightarrow> (Some AttributeError, kb)
      | Holds v \<Rightarrow>
          if v = PNone then
            (if frozen kb then (Some AttributeError, kb)
             else set_add key (kb\<lparr>valid_metadata_filters := HoldsSet {}\<rparr>))
          else set_add key kb
      | HoldsSet s \<Rightarrow> set_add key kb)"

definition initialize_knowledge_filters ::
  "knowledge_base \<Rightarrow> (error + pyval) \<times> knowledge_base \<times> printed list" where
  "initialize_knowledge_filters knowledge_base =
     (case register_filter_key ''user_id'' knowledge_base of
        (None, kb) \<Rightarrow> (Inr PNone, kb, [])
      | (Some e, kb) \<Rightarrow> (Inr PNone, kb, [FailedInit e]))"

section \<open>save\_posts.py\<close>

text \<open>
  The files on disk, each holding the JSON value dumped into it, and which paths
  \<open>open(filename, "w")\<close> accepts.
\<close>

record filesystem =
  files :: "string \<rightharpoonup> pyval"
  can_open :: "string \<Rightarrow> bool"

text \<open>What \<open>requests.get\<close> returns: \<open>json_body\<close> is the outcome of \<open>resp.json()\<close>.\<close>

record http_response =
  json_body :: "error + pyval"

fun digits :: "nat \<Rightarrow> string" where
  "digits n = (if n < 10 then [''0123456789'' ! n] else digits (n div 10) @ [''0123456789'' ! (n mod 10)])"

declare digits.simps [simp del]

text \<open>
  \<open>str\<close>, as the f-string applies it to the id. The text of a float, a list or a dict
  is given by the parameter \<open>repr\<close>.
\<close>

fun py_str :: "(pyval \<Rightarrow> string) \<Rightarrow> pyval \<Rightarrow> string" where
  "py_str repr PNone = ''None''"
| "py_str repr (PBool b) = (if b then ''True'' else ''False'')"
| "py_str repr (PInt i) = (if i < 0 then CHR ''-'' # digits (nat (- i)) else digits (nat i))"
| "py_str repr (PStr s) = s"
| "py_str repr v = repr v"

text \<open>\<open>os.path.join\<close> of two components (POSIX).\<close>

definition path_join :: "string \<Rightarrow> string \<Rightarrow> string" where
  "path_join a b =
     (if b \<noteq> [] \<and> hd b = CHR ''/'' then b
      else if a = [] \<or> last a = CHR ''/'' then a @ b
      else a @ ''/'' @ b)"

text \<open>
  The \<open>for\<close> loop of fetch\_and\_save\_posts. No \<open>try\<close>: the first exception leaves
  the function, and the files written before it stay.
\<close>

fun save_loop ::
  "(pyval \<Rightarrow> string) \<Rightarrow> string \<Rightarrow> pyval list \<Rightarrow> filesystem \<Rightarrow> printed list
     \<Rightarrow> error option \<times> filesystem \<times> printed list" where
  "save_loop repr output_dir [] fs out = (None, fs, out)"
| "save_loop repr output_dir (post # rest) fs out =
     (case py_get post ''id'' PNone of
        Inl e \<Rightarrow> (Some e, fs, out)
      | Inr post_id \<Rightarrow>
          (let filename = path_join output_dir (''post_'' @ py_str repr post_id @ ''.json'')
           in if can_open fs filename then
                save_loop repr output_dir rest
                  (fs\<lparr>files := (files fs)(filename \<mapsto> post)\<rparr>)
                  (out @ [SavedPost post_id filename])
              else (Some OSError, fs, out)))"

text \<open>
  \<open>get_result\<close> is the outcome of \<open>requests.get("https://dummyjson.com/posts")\<close>.
  The function has no \<open>return\<close> statement.
\<close>

definition fetch_and_save_posts ::
  "(pyval \<Rightarrow> string) \<Rightarrow> error + http_response \<Rightarrow> string \<Rightarrow> filesystem
     \<Rightarrow> (error + pyval) \<times> filesystem \<times> printed list" where
  "fetch_and_save_posts repr get_result output_dir fs =
     (case bind_err get_result json_body of
        Inl e \<Rightarrow> (Inl e, fs, [])
      | Inr data \<Rightarrow>
          (case bind_err (py_get data ''posts'' (PList [])) py_iter of
             Inl e \<Rightarrow> (Inl e, fs, [])
           | Inr posts \<Rightarrow>
               (case save_loop repr output_dir posts fs [] of
                  (Some e, fs', out) \<Rightarrow> (Inl e, fs', out)
                | (None, fs', out) \<Rightarrow> (Inr PNone, fs', out))))"

section \<open>agent.py\<close>

text \<open>
  \<open>agent.print_response\<close> belongs to the agno library. \<open>searches\<close> are the queries
  it sends to the knowledge base while it answers, each with the \<open>knowledge_filters\<close> it
  was given; each query is kept with the knowledge base as it is when the query is sent.
\<close>

definition print_response ::
  "knowledge_base \<Rightarrow> filters \<Rightarrow> string list \<Rightarrow> (call \<times> knowledge_base) list" where
  "print_response kb knowledge_filters searches =
     map (\<lambda>q. (Search q knowledge_filters, kb)) searches"

text \<open>
  The module's statements in order: initialize\_knowledge\_filters on the knowledge base
  (line 50), then \<open>agent.print_response\<close> with the filter \<open>user_id = 97\<close> (lines 52 to
  55). The result is the knowledge base at the end, the calls in order, each with the
  knowledge base it found, and the lines printed.
\<close>

definition agent_main ::
  "knowledge_base \<Rightarrow> string list
     \<Rightarrow> knowledge_base \<times> (call \<times> knowledge_base) list \<times> printed list" where
  "agent_main social_media_knowledge_base searches =
     (case initialize_knowledge_filters social_media_knowledge_base of
        (r, kb, out) \<Rightarrow>
          (kb,
           (InitFilters, social_media_knowledge_base)
             # print_response kb [(''user_id'', PInt 97)] searches,
           out))"

section \<open>The Knowledge Store and the Chunker\<close>

text \<open>
  The search of the knowledge base and the chunking of a document are done by the agno
  library, which the scripts only configure and call (\<open>PgVector\<close>, \<open>SemanticChunking\<close>,
  \<open>Agent\<close>): its code is not part of the repository. Both are written here after the
  spec, sections 3, 4.3 and 4.5.
\<close>

text \<open>
  Modelled from the spec: the Chunk of section 3 (the library's chunk type is missing).
  \<open>chunk_text\<close> is its attribute \<open>text\<close>; \<open>chunk_metadata\<close> and \<open>chunk_filter\<close>
  are the metadata and the Filter inherited from the parent Document.
\<close>

record chunk =
  chunk_text :: string
  source_document_id :: nat
  sequence_index :: nat
  embedding_vector :: "real list"
  chunk_metadata :: "(string \<times> pyval) list"
  chunk_filter :: filters

text \<open>
  Modelled from the spec: the state of the Knowledge Store of section 4.5 (the vector
  database is missing): the registered filter key set and the records written.
\<close>

record knowledge_store =
  registered :: "string set"
  stored :: "chunk list"

text \<open>
  Modelled from the spec: which keys a knowledge base has registered. The spec's
  registered filter key set is the set that valid\_filters.py keeps in
  \<open>valid_metadata_filters\<close>; the library code that reads it is missing. Without a set
  no key is registered.
\<close>

definition registered_keys :: "knowledge_base \<Rightarrow> string set" where
  "registered_keys kb = (case valid_metadata_filters kb of HoldsSet s \<Rightarrow> s | _ \<Rightarrow> {})"

text \<open>
  Modelled from the spec: the Knowledge Store that a knowledge base and the records
  written to it make up (the library's link between the two is missing).
\<close>

definition store_of :: "knowledge_base \<Rightarrow> chunk list \<Rightarrow> knowledge_store" where
  "store_of kb chunks = \<lparr>registered = registered_keys kb, stored = chunks\<rparr>"

text \<open>
  Modelled from the spec: the filter of a search (section 4.5; the store's search is
  missing). A record matches when its Filter equals the query's on every key the query
  provides.
\<close>

definition filter_matches :: "filters \<Rightarrow> chunk \<Rightarrow> bool" where
  "filter_matches flt c = list_all (\<lambda>kv. map_of (chunk_filter c) (fst kv) = Some (snd kv)) flt"

text \<open>
  Modelled from the spec: the order of the results of a search (section 4.5; the store's
  ranking is missing). Descending by score, ties broken by ascending sequence\_index, then
  by ascending source\_document\_id.
\<close>

definition ranks_before :: "chunk \<times> real \<Rightarrow> chunk \<times> real \<Rightarrow> bool" where
  "ranks_before a b =
     (snd b < snd a \<or>
      (snd a = snd b \<and>
       (sequence_index (fst a) < sequence_index (fst b) \<or>
        (sequence_index (fst a) = sequence_index (fst b) \<and>
         source_document_id (fst a) \<le> source_document_id (fst b)))))"

text \<open>
  Modelled from the spec: the ordering of the scored records by the order above, an
  insertion sort (section 4.5 asks only for a deterministic order; the ranking is missing).
\<close>

fun insert_ranked :: "chunk \<times> real \<Rightarrow> (chunk \<times> real) list \<Rightarrow> (chunk \<times> real) list" where
  "insert_ranked x [] = [x]"
| "insert_ranked x (y # ys) = (if ranks_before x y then x # y # ys else y # insert_ranked x ys)"

definition ranked :: "(chunk \<times> real) list \<Rightarrow> (chunk \<times> real) list" where
  "ranked xs = foldr insert_ranked xs []"

text \<open>
  Modelled from the spec: the Knowledge Store's \<open>search\<close> (section 4.5; the search of
  the vector database behind \<open>agent.print_response\<close> is missing). A filter that names
  an unregistered key is rejected with InvalidFilterError; otherwise the records that
  match the filter are scored, ordered and cut at \<open>top_k\<close>. The spec leaves the
  combined score to the implementation: it is the parameter \<open>score\<close>.
\<close>

definition search ::
  "knowledge_store \<Rightarrow> (real list \<Rightarrow> string \<Rightarrow> chunk \<Rightarrow> real) \<Rightarrow> real list \<Rightarrow> string \<Rightarrow> filters
     \<Rightarrow> nat \<Rightarrow> error + (chunk \<times> real) list" where
  "search st score query_vector query_text flt top_k =
     (if list_all (\<lambda>kv. fst kv \<in> registered st) flt then
        Inr (take top_k
          (ranked (map (\<lambda>c. (c, score query_vector query_text c))
             (filter (filter_matches flt) (stored st)))))
      else Inl InvalidFilterError)"

text \<open>
  Modelled from the spec: the Chunker's parameters (section 4.3; \<open>SemanticChunking\<close>
  is missing, the scripts only construct it with an embedder and the threshold 0.3).
  \<open>embed\<close> is the embedding of a unit, \<open>running\<close> gives the running embedding of
  a chunk that takes one more unit, \<open>cosine\<close> is the similarity of two embeddings.
\<close>

record chunker =
  embed :: "string \<Rightarrow> real list"
  running :: "real list \<Rightarrow> real list \<Rightarrow> real list"
  cosine :: "real list \<Rightarrow> real list \<Rightarrow> real"
  similarity_threshold :: real

text \<open>
  Modelled from the spec: the segmentation of a content into its sentence-level units
  (section 4.3; missing as above). A unit ends with the full stop, question mark or
  exclamation mark that closes its sentence; the text after the last of them is a unit
  of its own. \<open>cur\<close> is the unit being read. No unit is empty, and no character is
  dropped, added or moved.
\<close>

fun units_from :: "string \<Rightarrow> string \<Rightarrow> string list" where
  "units_from cur [] = (if cur = [] then [] else [cur])"
| "units_from cur (c # cs) =
     (if c = CHR ''.'' \<or> c = CHR ''?'' \<or> c = CHR ''!'' then (cur @ [c]) # units_from [] cs
      else units_from (cur @ [c]) cs)"

definition units :: "string \<Rightarrow> string list" where
  "units s = units_from [] s"

text \<open>
  Modelled from the spec: the greedy merge of the Chunker (section 4.3; missing as
  above). \<open>cur\<close> is the growing chunk and \<open>emb\<close> its running embedding: the next unit
  joins the chunk while its similarity to the running embedding is at or above the
  threshold; below it the chunk is closed and the unit starts a new one.
\<close>

fun merge_units :: "chunker \<Rightarrow> string \<Rightarrow> real list \<Rightarrow> string list \<Rightarrow> (string \<times> real list) list" where
  "merge_units ch cur emb [] = [(cur, emb)]"
| "merge_units ch cur emb (u # us) =
     (if similarity_threshold ch \<le> cosine ch emb (embed ch u) then
        merge_units ch (cur @ u) (running ch emb (embed ch u)) us
      else (cur, emb) # merge_units ch u (embed ch u) us)"

text \<open>
  Modelled from the spec: \<open>chunk\<close> (sections 3 and 4.3; missing as above). A Document
  with empty content produces no chunk. Otherwise its units are merged, and the chunks
  come in order, numbered from 0, each with the Document's metadata and Filter. The
  content of a Document is a text; of anything else there is no chunk.
\<close>

definition chunk :: "chunker \<Rightarrow> nat \<Rightarrow> document \<Rightarrow> filters \<Rightarrow> chunk list" where
  "chunk ch doc_id doc flt =
     (case content doc of
        PStr s \<Rightarrow>
          if s = [] then []
          else
            map (\<lambda>it. \<lparr>chunk_text = fst (snd it), source_document_id = doc_id,
                       sequence_index = fst it, embedding_vector = snd (snd it),
                       chunk_metadata = meta_data doc, chunk_filter = flt\<rparr>)
              (enumerate 0
                 (case units s of
                    [] \<Rightarrow> []
                  | u # us \<Rightarrow> merge_units ch u (embed ch u) us))
      | _ \<Rightarrow> [])"

section \<open>Notions the properties are stated with\<close>

text \<open>
  A valid record file: its JSON parses to a mapping that has the keys "body" and "title".
\<close>

definition valid_record_file :: "json_file \<Rightarrow> bool" where
  "valid_record_file f =
     (case loaded f of
        Inr (PDict kvs) \<Rightarrow> map_of kvs ''body'' \<noteq> None \<and> map_of kvs ''title'' \<noteq> None
      | _ \<Rightarrow> False)"

text \<open>What one file contributes to generate\_documents: its pair, if any, and its line.\<close>

definition file_outcome :: "json_file \<Rightarrow> (document \<times> filters) option \<times> printed" where
  "file_outcome f =
     (case loaded f of
        Inl e \<Rightarrow> (None, ErrorProcessing (file_name f) e)
      | Inr post_data \<Rightarrow>
          (case create_document_metadata post_data of
             Inl e \<Rightarrow> (None, ErrorProcessing (file_name f) e)
           | Inr pair \<Rightarrow>
               (Some pair,
                case py_get post_data ''title'' (PStr ''No title'') of
                  Inl e \<Rightarrow> ErrorProcessing (file_name f) e
                | Inr title \<Rightarrow> GeneratedDocument (file_name f) title)))"

fun is_error_report :: "printed \<Rightarrow> bool" where
  "is_error_report (ErrorProcessing n e) = True"
| "is_error_report (ErrorLoading e) = True"
| "is_error_report (FailedInit e) = True"
| "is_error_report _ = False"

definition call_of :: "document \<times> filters \<Rightarrow> call" where
  "call_of p = LoadDocuments (fst p) (snd p)"

text \<open>
  The order the spec asks of a program's calls: it writes or searches only after it has
  initialized the filter keys, so its first call, if it makes any, is the initialization.
\<close>

fun initialized_first :: "call list \<Rightarrow> bool" where
  "initialized_first [] = True"
| "initialized_first (InitFilters # cs) = True"
| "initialized_first (c # cs) = False"

text \<open>
  Isolation of failures, as the spec asks it of the batch: every generated record is
  handed to \<open>load_documents\<close>, whatever happened to the records before it.
\<close>

definition ingests_every_record ::
  "('db \<Rightarrow> document \<Rightarrow> filters \<Rightarrow> error option \<times> 'db) \<Rightarrow> 'db \<Rightarrow> json_file list \<Rightarrow> bool" where
  "ingests_every_record ld db json_files =
     (fst (snd (snd (load_posts ld db json_files))) =
        map call_of (fst (generate_documents json_files)))"

text \<open>
  A database for examples: the list of the documents written; the write of a document
  named "down" raises.
\<close>

definition list_db :: "document list \<Rightarrow> document \<Rightarrow> filters \<Rightarrow> error option \<times> document list" where
  "list_db db doc flt =
     (if name doc = PStr ''down'' then (Some (OtherError ''connection lost''), db)
      else (None, db @ [doc]))"

definition post_file :: "string \<Rightarrow> string \<Rightarrow> json_file" where
  "post_file n title =
     \<lparr>file_name = n,
      loaded = Inr (PDict [(''title'', PStr title), (''body'', PStr ''Sentence one.'')])\<rparr>"

definition broken_file :: "string \<Rightarrow> json_file" where
  "broken_file n = \<lparr>file_name = n, loaded = Inl JSONDecodeError\<rparr>"

text \<open>The pair that create\_document\_metadata makes of \<open>post_file n title\<close>.\<close>

definition post_pair :: "string \<Rightarrow> document \<times> filters" where
  "post_pair title =
     (\<lparr>content = PStr ''Sentence one.'', name = PStr title,
       meta_data = [(''tags'', PList []), (''reactions'', PDict []), (''views'', PInt 0)]\<rparr>,
      [(''user_id'', PInt 0)])"

text \<open>The path under which fetch\_and\_save\_posts saves a record: \<open>post_<id>.json\<close>.\<close>

definition saved_as :: "(pyval \<Rightarrow> string) \<Rightarrow> string \<Rightarrow> pyval \<Rightarrow> string" where
  "saved_as repr output_dir post =
     path_join output_dir
       (''post_'' @
        py_str repr (case py_get post ''id'' PNone of Inl e \<Rightarrow> PNone | Inr post_id \<Rightarrow> post_id)
        @ ''.json'')"

text \<open>An API answer whose JSON body is \<open>data\<close>, and a disk that accepts every path.\<close>

definition api_answer :: "pyval \<Rightarrow> error + http_response" where
  "api_answer data = Inr \<lparr>json_body = Inr data\<rparr>"

definition empty_disk :: filesystem where
  "empty_disk = \<lparr>files = Map.empty, can_open = (\<lambda>path. True)\<rparr>"

definition no_repr :: "pyval \<Rightarrow> string" where
  "no_repr v = ''?''"

text \<open>A Chunker for examples: no two units are similar.\<close>

definition apart :: chunker where
  "apart = \<lparr>embed = (\<lambda>u. [real (length u)]),
            running = (\<lambda>a b. a), cosine = (\<lambda>a b. 0), similarity_threshold = 3 / 10\<rparr>"

definition fresh_kb :: knowledge_base where
  "fresh_kb = \<lparr>valid_metadata_filters = Holds PNone, frozen = False\<rparr>"

section \<open>Properties\<close>

text \<open>
  C5. For every record mapping that contains the keys "body" and "title",
  create\_document\_metadata returns a Document whose content is the record's body and
  whose name is the record's title; its metadata has the keys tags, reactions and views,
  each taken from the record and defaulting to the empty list, the empty mapping and 0
  when absent; the Filter is user\_id mapped to the record's userId, 0 when absent.
\<close>

theorem create_document_metadata_maps_record:
  assumes "map_of kvs ''body'' = Some b" and "map_of kvs ''title'' = Some t"
  shows "create_document_metadata (PDict kvs) =
     Inr (\<lparr>content = b, name = t,
            meta_data =
              [(''tags'', case map_of kvs ''tags'' of None \<Rightarrow> PList [] | Some v \<Rightarrow> v),
               (''reactions'', case map_of kvs ''reactions'' of None \<Rightarrow> PDict [] | Some v \<Rightarrow> v),
               (''views'', case map_of kvs ''views'' of None \<Rightarrow> PInt 0 | Some v \<Rightarrow> v)]\<rparr>,
          [(''user_id'', case map_of kvs ''userId'' of None \<Rightarrow> PInt 0 | Some v \<Rightarrow> v)])"
  using assms by (simp add: create_document_metadata_def bind_err_def)

theorem create_document_metadata_maps_record_witness:
  "create_document_metadata
     (PDict [(''id'', PInt 1), (''title'', PStr ''T''), (''body'', PStr ''Sentence one.''),
             (''tags'', PList [PStr ''crime'']), (''userId'', PInt 7)]) =
   Inr (\<lparr>content = PStr ''Sentence one.'', name = PStr ''T'',
          meta_data = [(''tags'', PList [PStr ''crime'']), (''reactions'', PDict []),
                       (''views'', PInt 0)]\<rparr>,
        [(''user_id'', PInt 7)])"
  using create_document_metadata_maps_record
    [of "[(''id'', PInt 1), (''title'', PStr ''T''), (''body'', PStr ''Sentence one.''),
          (''tags'', PList [PStr ''crime'']), (''userId'', PInt 7)]"
        "PStr ''Sentence one.''" "PStr ''T''"]
  by simp

subsection \<open>generate\_documents, file by file\<close>

lemma generate_loop_outcomes:
  "generate_loop fs d out =
     (d @ concat (map (\<lambda>f. case fst (file_outcome f) of None \<Rightarrow> [] | Some p \<Rightarrow> [p]) fs),
      out @ map (\<lambda>f. snd (file_outcome f)) fs)"
  by (induction fs arbitrary: d out)
     (auto simp: file_outcome_def split: sum.splits)

lemma generate_documents_outcomes:
  "generate_documents fs =
     (concat (map (\<lambda>f. case fst (file_outcome f) of None \<Rightarrow> [] | Some p \<Rightarrow> [p]) fs),
      FoundFiles (length fs) # map (\<lambda>f. snd (file_outcome f)) fs
        @ [GeneratedCount (length (concat (map (\<lambda>f. case fst (file_outcome f) of None \<Rightarrow> [] | Some p \<Rightarrow> [p]) fs)))])"
  by (simp add: generate_documents_def generate_loop_outcomes)

lemma valid_file_outcome:
  assumes "valid_record_file f"
  shows "\<exists>p t. file_outcome f = (Some p, GeneratedDocument (file_name f) t)"
  using assms
  by (auto simp: valid_record_file_def file_outcome_def create_document_metadata_def bind_err_def
      split: sum.splits pyval.splits)

lemma unloadable_file_outcome:
  assumes "loaded f = Inl e"
  shows "file_outcome f = (None, ErrorProcessing (file_name f) e)"
  using assms by (simp add: file_outcome_def)

lemma valid_files_pairs:
  assumes "list_all valid_record_file fs"
  shows "length (concat (map (\<lambda>f. case fst (file_outcome f) of None \<Rightarrow> [] | Some p \<Rightarrow> [p]) fs)) = length fs"
  using assms
proof (induction fs)
  case Nil
  show ?case by simp
next
  case (Cons f fs)
  from Cons.prems have "valid_record_file f" by simp
  then obtain p t where "file_outcome f = (Some p, GeneratedDocument (file_name f) t)"
    using valid_file_outcome by blast
  with Cons show ?case by simp
qed

lemma valid_files_no_error:
  assumes "list_all valid_record_file fs"
  shows "filter is_error_report (map (\<lambda>f. snd (file_outcome f)) fs) = []"
  using assms
proof (induction fs)
  case Nil
  show ?case by simp
next
  case (Cons f fs)
  from Cons.prems have "valid_record_file f" by simp
  then obtain p t where "file_outcome f = (Some p, GeneratedDocument (file_name f) t)"
    using valid_file_outcome by blast
  with Cons show ?case by simp
qed

text \<open>
  C4. For every directory of N files of which one is a malformed JSON file and the
  others are valid record files, generate\_documents yields exactly N-1 Documents and
  reports exactly one error, the one of the bad file; the bad file does not abort the
  processing of the other files: the Documents are those of the directory without it.
\<close>

theorem generate_documents_one_bad_file:
  assumes "list_all valid_record_file (pre @ post)" and "loaded bad = Inl e"
  shows "length (fst (generate_documents (pre @ bad # post))) = length (pre @ bad # post) - 1
       \<and> filter is_error_report (snd (generate_documents (pre @ bad # post))) =
           [ErrorProcessing (file_name bad) e]
       \<and> fst (generate_documents (pre @ bad # post)) = fst (generate_documents (pre @ post))"
proof -
  from assms(1) have v: "list_all valid_record_file pre" "list_all valid_record_file post"
    by simp_all
  have b: "file_outcome bad = (None, ErrorProcessing (file_name bad) e)"
    using assms(2) by (rule unloadable_file_outcome)
  show ?thesis
    using valid_files_pairs[OF v(1)] valid_files_pairs[OF v(2)]
      valid_files_no_error[OF v(1)] valid_files_no_error[OF v(2)] b
    by (simp add: generate_documents_outcomes)
qed

theorem generate_documents_one_bad_file_witness:
  "length (fst (generate_documents [post_file ''post_1.json'' ''A'', broken_file ''post_2.json'',
       post_file ''post_3.json'' ''C''])) = 2
   \<and> filter is_error_report (snd (generate_documents [post_file ''post_1.json'' ''A'',
       broken_file ''post_2.json'', post_file ''post_3.json'' ''C''])) =
       [ErrorProcessing ''post_2.json'' JSONDecodeError]
   \<and> fst (generate_documents [post_file ''post_1.json'' ''A'', broken_file ''post_2.json'',
       post_file ''post_3.json'' ''C'']) =
     fst (generate_documents [post_file ''post_1.json'' ''A'', post_file ''post_3.json'' ''C''])"
proof -
  have valid: "list_all valid_record_file
      ([post_file ''post_1.json'' ''A''] @ [post_file ''post_3.json'' ''C''])"
    by (simp add: valid_record_file_def post_file_def)
  have bad: "loaded (broken_file ''post_2.json'') = Inl JSONDecodeError"
    by (simp add: broken_file_def)
  note t = generate_documents_one_bad_file [OF valid bad]
  have c1: "length (fst (generate_documents [post_file ''post_1.json'' ''A'',
      broken_file ''post_2.json'', post_file ''post_3.json'' ''C''])) = 2"
    using t [THEN conjunct1] by simp
  have c2: "filter is_error_report (snd (generate_documents [post_file ''post_1.json'' ''A'',
       broken_file ''post_2.json'', post_file ''post_3.json'' ''C''])) =
       [ErrorProcessing ''post_2.json'' JSONDecodeError]"
    using t [THEN conjunct2, THEN conjunct1] by (simp add: broken_file_def)
  have c3: "fst (generate_documents [post_file ''post_1.json'' ''A'', broken_file ''post_2.json'',
       post_file ''post_3.json'' ''C'']) =
     fst (generate_documents [post_file ''post_1.json'' ''A'', post_file ''post_3.json'' ''C''])"
    using t [THEN conjunct2, THEN conjunct2] by simp
  show ?thesis using c1 c2 c3 by blast
qed

subsection \<open>load\_posts: the write loop\<close>

lemma load_loop_failure_at:
  assumes "load_loop ld db pre cs = (None, db1, c1)"
    and "ld db1 (fst p) (snd p) = (Some e, db2)"
  shows "load_loop ld db (pre @ p # post) cs = (Some e, db2, cs @ map call_of (pre @ [p]))"
  using assms
proof (induction pre arbitrary: db cs)
  case Nil
  then show ?case by (simp add: call_of_def)
next
  case (Cons q pre)
  obtain r db' where step: "ld db (fst q) (snd q) = (r, db')" by (cases "ld db (fst q) (snd q)")
  with Cons.prems(1) have r: "r = None" by (cases r) auto
  with step Cons.prems(1)
  have "load_loop ld db' pre (cs @ [LoadDocuments (fst q) (snd q)]) = (None, db1, c1)" by simp
  from Cons.IH [OF this Cons.prems(2)] step r show ?case by (simp add: call_of_def)
qed

lemma load_loop_no_init:
  assumes "InitFilters \<notin> set cs"
  shows "InitFilters \<notin> set (snd (snd (load_loop ld db ps cs)))"
  using assms
proof (induction ps arbitrary: db cs)
  case Nil
  then show ?case by simp
next
  case (Cons q ps)
  obtain r db' where step: "ld db (fst q) (snd q) = (r, db')" by (cases "ld db (fst q) (snd q)")
  show ?case
  proof (cases r)
    case None
    have "InitFilters \<notin> set (cs @ [LoadDocuments (fst q) (snd q)])" using Cons.prems by simp
    from Cons.IH [OF this] step None show ?thesis by simp
  next
    case (Some e)
    with step Cons.prems show ?thesis by simp
  qed
qed

lemma load_posts_returns: "fst (load_posts ld db fs) = Inr PNone"
  by (simp add: load_posts_def split: prod.splits option.splits)

lemma load_posts_no_init: "InitFilters \<notin> set (fst (snd (snd (load_posts ld db fs))))"
proof -
  obtain ps out where g: "generate_documents fs = (ps, out)" by (cases "generate_documents fs")
  obtain r db' cs where l: "load_loop ld db ps [] = (r, db', cs)"
    by (cases "load_loop ld db ps []")
  have "InitFilters \<notin> set (snd (snd (load_loop ld db ps [])))"
    by (rule load_loop_no_init) simp
  with l have "InitFilters \<notin> set cs" by simp
  with g l show ?thesis by (cases r) (simp_all add: load_posts_def)
qed

lemma generate_documents_post_files:
  "fst (generate_documents [post_file ''post_1.json'' ''A'', post_file ''post_2.json'' ''down'',
     post_file ''post_3.json'' ''C'']) = [post_pair ''A'', post_pair ''down'', post_pair ''C'']"
  by (simp add: generate_documents_def post_file_def post_pair_def
      create_document_metadata_def bind_err_def)

text \<open>
  C3, as the code has it. load\_posts hands the generated records to the knowledge base
  in order and stops at the first one whose write fails: that failure is caught and
  reported once, the records after it are not attempted, the database stays as the
  failed write left it, and the job still returns normally, so it exits with code 0
  whether or not a record failed.
\<close>

theorem load_posts_stops_at_first_failure:
  "exit_code (fst (load_posts ld db json_files)) = 0 \<and>
   (\<forall>pre p post db1 c1 e db2.
      fst (generate_documents json_files) = pre @ p # post \<and>
      load_loop ld db pre [] = (None, db1, c1) \<and>
      ld db1 (fst p) (snd p) = (Some e, db2) \<longrightarrow>
      load_posts ld db json_files =
        (Inr PNone, db2, map call_of (pre @ [p]),
         snd (generate_documents json_files) @ [ErrorLoading e]))"
proof (intro conjI allI impI)
  show "exit_code (fst (load_posts ld db json_files)) = 0"
    by (simp add: load_posts_returns exit_code_def)
next
  fix pre p post db1 c1 e db2
  assume h: "fst (generate_documents json_files) = pre @ p # post \<and>
      load_loop ld db pre [] = (None, db1, c1) \<and>
      ld db1 (fst p) (snd p) = (Some e, db2)"
  then have "load_loop ld db (pre @ p # post) [] = (Some e, db2, [] @ map call_of (pre @ [p]))"
    by (intro load_loop_failure_at) auto
  with h show "load_posts ld db json_files =
        (Inr PNone, db2, map call_of (pre @ [p]),
         snd (generate_documents json_files) @ [ErrorLoading e])"
    by (cases "generate_documents json_files") (simp add: load_posts_def)
qed

theorem load_posts_stops_at_first_failure_witness:
  "exit_code (fst (load_posts list_db []
     [post_file ''post_1.json'' ''A'', post_file ''post_2.json'' ''down'',
      post_file ''post_3.json'' ''C''])) = 0 \<and>
   load_posts list_db []
     [post_file ''post_1.json'' ''A'', post_file ''post_2.json'' ''down'',
      post_file ''post_3.json'' ''C''] =
     (Inr PNone, [fst (post_pair ''A'')],
      [call_of (post_pair ''A''), call_of (post_pair ''down'')],
      snd (generate_documents [post_file ''post_1.json'' ''A'', post_file ''post_2.json'' ''down'',
        post_file ''post_3.json'' ''C'']) @ [ErrorLoading (OtherError ''connection lost'')])"
proof -
  let ?fs = "[post_file ''post_1.json'' ''A'', post_file ''post_2.json'' ''down'',
      post_file ''post_3.json'' ''C'']"
  note t = load_posts_stops_at_first_failure [of list_db "[]" ?fs]
  have g: "fst (generate_documents ?fs) = [post_pair ''A''] @ post_pair ''down'' # [post_pair ''C'']"
    by (simp add: generate_documents_post_files)
  have l: "load_loop list_db [] [post_pair ''A''] [] =
      (None, [fst (post_pair ''A'')], [call_of (post_pair ''A'')])"
    by (simp add: list_db_def post_pair_def call_of_def)
  have f: "list_db [fst (post_pair ''A'')] (fst (post_pair ''down'')) (snd (post_pair ''down'')) =
      (Some (OtherError ''connection lost''), [fst (post_pair ''A'')])"
    by (simp add: list_db_def post_pair_def)
  from t [THEN conjunct2, rule_format, OF conjI [OF g conjI [OF l f]]] t [THEN conjunct1]
  show ?thesis by simp
qed

text \<open>
  C3 as stated asks that a failure on one record does not abort the ingestion of the
  remaining records. With two records of which the first fails, the second is never
  handed to the knowledge base.
\<close>

theorem load_posts_abandons_rest_counterexample:
  "\<not> ingests_every_record list_db []
       [post_file ''post_1.json'' ''down'', post_file ''post_2.json'' ''B'']"
  by (simp add: ingests_every_record_def load_posts_def generate_documents_def post_file_def
      create_document_metadata_def bind_err_def list_db_def call_of_def)

lemma initialize_from_none:
  assumes "valid_metadata_filters kb = Holds PNone" and "\<not> frozen kb"
  shows "initialize_knowledge_filters kb =
           (Inr PNone, kb\<lparr>valid_metadata_filters := HoldsSet {''user_id''}\<rparr>, [])"
  using assms
  by (simp add: initialize_knowledge_filters_def register_filter_key_def set_add_def)

lemma initialize_from_set:
  assumes "valid_metadata_filters kb = HoldsSet s"
  shows "initialize_knowledge_filters kb =
           (Inr PNone, kb\<lparr>valid_metadata_filters := HoldsSet (insert ''user_id'' s)\<rparr>, [])"
  using assms
  by (simp add: initialize_knowledge_filters_def register_filter_key_def set_add_def)

lemma agent_calls_start_with_init:
  "initialized_first (map fst (fst (snd (agent_main kb searches))))"
  by (cases "initialize_knowledge_filters kb") (simp add: agent_main_def)

text \<open>
  C2, as the code has it. In every execution of agent.py, initialize\_knowledge\_filters
  is called before any query reaches the knowledge base. On a knowledge base that holds
  no key set yet, as the script constructs it, the call succeeds silently and every
  query finds the registered keys to be exactly "user\_id"; on one that already holds a
  set, every query finds that set with "user\_id" added. load\_posts.py never calls
  initialize\_knowledge\_filters: none of its calls is the initialization, so no
  initialization precedes its writes.
\<close>

theorem agent_initializes_loader_does_not:
  "initialized_first (map fst (fst (snd (agent_main kb searches)))) \<and>
   (valid_metadata_filters kb = Holds PNone \<and> \<not> frozen kb \<longrightarrow>
      agent_main kb searches =
        (kb\<lparr>valid_metadata_filters := HoldsSet {''user_id''}\<rparr>,
         (InitFilters, kb) #
           map (\<lambda>q. (Search q [(''user_id'', PInt 97)],
                      kb\<lparr>valid_metadata_filters := HoldsSet {''user_id''}\<rparr>)) searches,
         [])) \<and>
   (\<forall>s. valid_metadata_filters kb = HoldsSet s \<longrightarrow>
      agent_main kb searches =
        (kb\<lparr>valid_metadata_filters := HoldsSet (insert ''user_id'' s)\<rparr>,
         (InitFilters, kb) #
           map (\<lambda>q. (Search q [(''user_id'', PInt 97)],
                      kb\<lparr>valid_metadata_filters := HoldsSet (insert ''user_id'' s)\<rparr>)) searches,
         [])) \<and>
   InitFilters \<notin> set (fst (snd (snd (load_posts ld db json_files))))"
proof (intro conjI allI impI)
  show "initialized_first (map fst (fst (snd (agent_main kb searches))))"
    by (rule agent_calls_start_with_init)
next
  assume "valid_metadata_filters kb = Holds PNone \<and> \<not> frozen kb"
  then have "initialize_knowledge_filters kb =
      (Inr PNone, kb\<lparr>valid_metadata_filters := HoldsSet {''user_id''}\<rparr>, [])"
    by (intro initialize_from_none) simp_all
  then show "agent_main kb searches =
        (kb\<lparr>valid_metadata_filters := HoldsSet {''user_id''}\<rparr>,
         (InitFilters, kb) #
           map (\<lambda>q. (Search q [(''user_id'', PInt 97)],
                      kb\<lparr>valid_metadata_filters := HoldsSet {''user_id''}\<rparr>)) searches,
         [])"
    by (simp add: agent_main_def print_response_def)
next
  fix s assume "valid_metadata_filters kb = HoldsSet s"
  then have "initialize_knowledge_filters kb =
      (Inr PNone, kb\<lparr>valid_metadata_filters := HoldsSet (insert ''user_id'' s)\<rparr>, [])"
    by (rule initialize_from_set)
  then show "agent_main kb searches =
        (kb\<lparr>valid_metadata_filters := HoldsSet (insert ''user_id'' s)\<rparr>,
         (InitFilters, kb) #
           map (\<lambda>q. (Search q [(''user_id'', PInt 97)],
                      kb\<lparr>valid_metadata_filters := HoldsSet (insert ''user_id'' s)\<rparr>)) searches,
         [])"
    by (simp add: agent_main_def print_response_def)
next
  show "InitFilters \<notin> set (fst (snd (snd (load_posts ld db json_files))))"
    by (rule load_posts_no_init)
qed

theorem agent_initializes_loader_does_not_witness:
  "initialized_first (map fst (fst (snd (agent_main fresh_kb [''What was her terrible habit?''])))) \<and>
   agent_main fresh_kb [''What was her terrible habit?''] =
     (\<lparr>valid_metadata_filters = HoldsSet {''user_id''}, frozen = False\<rparr>,
      [(InitFilters, fresh_kb),
       (Search ''What was her terrible habit?'' [(''user_id'', PInt 97)],
        \<lparr>valid_metadata_filters = HoldsSet {''user_id''}, frozen = False\<rparr>)],
      []) \<and>
   InitFilters \<notin> set (fst (snd (snd (load_posts list_db [] [post_file ''post_1.json'' ''A'']))))"
proof -
  note t = agent_initializes_loader_does_not
             [of fresh_kb "[''What was her terrible habit?'']" list_db "[]"
                 "[post_file ''post_1.json'' ''A'']"]
  have f: "valid_metadata_filters fresh_kb = Holds PNone \<and> \<not> frozen fresh_kb"
    by (simp add: fresh_kb_def)
  have a: "agent_main fresh_kb [''What was her terrible habit?''] =
     (\<lparr>valid_metadata_filters = HoldsSet {''user_id''}, frozen = False\<rparr>,
      [(InitFilters, fresh_kb),
       (Search ''What was her terrible habit?'' [(''user_id'', PInt 97)],
        \<lparr>valid_metadata_filters = HoldsSet {''user_id''}, frozen = False\<rparr>)],
      [])"
    using t [THEN conjunct2, THEN conjunct1, rule_format, OF f] by (simp add: fresh_kb_def)
  from t [THEN conjunct1] a t [THEN conjunct2, THEN conjunct2, THEN conjunct2]
  show ?thesis by (intro conjI)
qed

text \<open>
  C2 as stated asks that no write precedes the initialization in any execution. An
  execution of load\_posts.py over one valid file starts with a write.
\<close>

theorem load_posts_uninitialized_counterexample:
  "\<not> initialized_first
       (fst (snd (snd (load_posts list_db [] [post_file ''post_1.json'' ''A'']))))"
  by (simp add: load_posts_def generate_documents_def post_file_def
      create_document_metadata_def bind_err_def list_db_def)

subsection \<open>fetch\_and\_save\_posts\<close>

lemma save_loop_files:
  assumes "save_loop repr dir ps fs out = (None, fs', out')"
  shows "files fs' = files fs ++ map_of (rev (map (\<lambda>p. (saved_as repr dir p, p)) ps))"
  using assms
proof (induction ps arbitrary: fs out)
  case Nil
  then show ?case by simp
next
  case (Cons p ps)
  from Cons.prems obtain post_id where id: "py_get p ''id'' PNone = Inr post_id"
    by (cases "py_get p ''id'' PNone") auto
  let ?fn = "path_join dir (''post_'' @ py_str repr post_id @ ''.json'')"
  have fn: "saved_as repr dir p = ?fn" by (simp add: saved_as_def id)
  from Cons.prems id have op: "can_open fs ?fn" by (cases "can_open fs ?fn") (auto simp: Let_def)
  with Cons.prems id
  have "save_loop repr dir ps (fs\<lparr>files := (files fs)(?fn \<mapsto> p)\<rparr>)
          (out @ [SavedPost post_id ?fn]) = (None, fs', out')"
    by (simp add: Let_def)
  from Cons.IH [OF this]
  have "files fs' = (files fs)(?fn \<mapsto> p) ++ map_of (rev (map (\<lambda>p. (saved_as repr dir p, p)) ps))"
    by (simp add: fun_upd_def)
  also have "\<dots> = files fs ++ map_of (rev (map (\<lambda>p. (saved_as repr dir p, p)) (p # ps)))"
    by (rule ext) (simp add: fn map_add_def split: option.split)
  finally show ?case .
qed


lemma fetch_success_unfold:
  assumes "get_result = Inr resp" and "json_body resp = Inr (PDict kvs)"
    and "map_of kvs ''posts'' = Some (PList posts)"
  shows "fetch_and_save_posts repr get_result output_dir fs =
     (case save_loop repr output_dir posts fs [] of
        (Some e, fs', out) \<Rightarrow> (Inl e, fs', out)
      | (None, fs', out) \<Rightarrow> (Inr PNone, fs', out))"
  using assms by (simp add: fetch_and_save_posts_def bind_err_def)

text \<open>
  C6, as the code has it. For every successful run over an API body whose "posts" field
  is a list of Records, fetch\_and\_save\_posts returns None; the Records are not
  returned: each is written as it is to \<open><output_dir>/post_<id>.json\<close>, a later
  Record replacing an earlier one saved under the same name.
\<close>

theorem fetch_and_save_posts_returns_none:
  assumes "get_result = Inr resp" and "json_body resp = Inr (PDict kvs)"
    and "map_of kvs ''posts'' = Some (PList posts)"
    and "fst (fetch_and_save_posts repr get_result output_dir fs) = Inr v"
  shows "v = PNone \<and>
     files (fst (snd (fetch_and_save_posts repr get_result output_dir fs))) =
       files fs ++ map_of (rev (map (\<lambda>post. (saved_as repr output_dir post, post)) posts))"
proof -
  obtain r fs' out where l: "save_loop repr output_dir posts fs [] = (r, fs', out)"
    by (cases "save_loop repr output_dir posts fs []")
  note u = fetch_success_unfold [OF assms(1-3), of repr output_dir fs]
  from assms(4) u l have r: "r = None" by (cases r) auto
  with u l have f: "fetch_and_save_posts repr get_result output_dir fs = (Inr PNone, fs', out)"
    by simp
  from l r have "files fs' = files fs ++ map_of (rev (map (\<lambda>post. (saved_as repr output_dir post, post)) posts))"
    by (intro save_loop_files [of repr output_dir posts fs "[]" fs' out]) simp
  with f assms(4) show ?thesis by simp
qed

theorem fetch_and_save_posts_returns_none_witness:
  "fst (fetch_and_save_posts no_repr
     (api_answer (PDict [(''posts'', PList [PDict [(''id'', PInt 1), (''title'', PStr ''T'')],
                                           PDict [(''id'', PInt 12)]])]))
     ''knowledge/files'' empty_disk) = Inr PNone \<and>
   files (fst (snd (fetch_and_save_posts no_repr
     (api_answer (PDict [(''posts'', PList [PDict [(''id'', PInt 1), (''title'', PStr ''T'')],
                                           PDict [(''id'', PInt 12)]])]))
     ''knowledge/files'' empty_disk))) =
     files empty_disk ++
     map_of (rev (map (\<lambda>post. (saved_as no_repr ''knowledge/files'' post, post))
       [PDict [(''id'', PInt 1), (''title'', PStr ''T'')], PDict [(''id'', PInt 12)]]))"
proof -
  let ?kvs = "[(''posts'', PList [PDict [(''id'', PInt 1), (''title'', PStr ''T'')],
                                  PDict [(''id'', PInt 12)]])]"
  have h1: "api_answer (PDict ?kvs) = Inr \<lparr>json_body = Inr (PDict ?kvs)\<rparr>"
    by (simp add: api_answer_def)
  have h2: "json_body \<lparr>json_body = Inr (PDict ?kvs)\<rparr> = Inr (PDict ?kvs)" by simp
  have h3: "map_of ?kvs ''posts'' =
      Some (PList [PDict [(''id'', PInt 1), (''title'', PStr ''T'')], PDict [(''id'', PInt 12)]])"
    by simp
  have h4: "fst (fetch_and_save_posts no_repr (api_answer (PDict ?kvs)) ''knowledge/files''
      empty_disk) = Inr PNone"
    by (simp add: fetch_and_save_posts_def api_answer_def bind_err_def empty_disk_def Let_def)
  from h4 fetch_and_save_posts_returns_none [OF h1 h2 h3 h4, THEN conjunct2]
  show ?thesis by (rule conjI)
qed

text \<open>
  C6 as stated asks that the return value is the fetched list of Records. On a body with
  one Record the function succeeds and its value is not that list.
\<close>

theorem fetch_and_save_posts_return_counterexample:
  "fst (fetch_and_save_posts no_repr
     (api_answer (PDict [(''posts'', PList [PDict [(''id'', PInt 1), (''title'', PStr ''T'')]])]))
     ''knowledge/files'' empty_disk) \<noteq> Inr (PList [PDict [(''id'', PInt 1), (''title'', PStr ''T'')]])"
  by (simp add: fetch_and_save_posts_def api_answer_def bind_err_def empty_disk_def Let_def
      path_join_def digits.simps)

text \<open>
  C10. When the fetched API response is valid JSON, an object that lacks the "posts"
  field or whose "posts" is the empty list, fetch\_and\_save\_posts writes no file (the
  disk is as it was), prints nothing and completes normally, returning None: the missing
  field is not an error.
\<close>

theorem fetch_and_save_posts_without_posts:
  assumes "get_result = Inr resp" and "json_body resp = Inr (PDict kvs)"
    and "map_of kvs ''posts'' = None \<or> map_of kvs ''posts'' = Some (PList [])"
  shows "fetch_and_save_posts repr get_result output_dir fs = (Inr PNone, fs, [])"
  using assms by (auto simp: fetch_and_save_posts_def bind_err_def)

theorem fetch_and_save_posts_without_posts_witness:
  "fetch_and_save_posts no_repr (api_answer (PDict [(''total'', PInt 0)])) ''knowledge/files''
     empty_disk = (Inr PNone, empty_disk, [])"
proof -
  have h1: "api_answer (PDict [(''total'', PInt 0)]) =
      Inr \<lparr>json_body = Inr (PDict [(''total'', PInt 0)])\<rparr>"
    by (simp add: api_answer_def)
  have h2: "json_body \<lparr>json_body = Inr (PDict [(''total'', PInt 0)])\<rparr> =
      Inr (PDict [(''total'', PInt 0)])" by simp
  have h3: "map_of [(''total'', PInt 0)] ''posts'' = None \<or>
      map_of [(''total'', PInt 0)] ''posts'' = Some (PList [])" by simp
  show ?thesis by (rule fetch_and_save_posts_without_posts [OF h1 h2 h3])
qed

subsection \<open>initialize\_knowledge\_filters\<close>

lemma set_add_twice:
  "snd (set_add key (snd (set_add key kb))) = snd (set_add key kb)"
  by (cases "valid_metadata_filters kb") (simp_all add: set_add_def)

lemma register_filter_key_twice:
  "snd (register_filter_key key (snd (register_filter_key key kb))) =
     snd (register_filter_key key kb)"
  by (cases "valid_metadata_filters kb")
     (simp_all add: register_filter_key_def set_add_def)

lemma initialize_state:
  "fst (snd (initialize_knowledge_filters kb)) = snd (register_filter_key ''user_id'' kb)"
  by (cases "register_filter_key ''user_id'' kb")
     (simp add: initialize_knowledge_filters_def split: option.splits)

lemma register_failure_unchanged:
  assumes "fst (register_filter_key key kb) = Some e"
  shows "snd (register_filter_key key kb) = kb"
  using assms
  by (cases "valid_metadata_filters kb")
     (auto simp: register_filter_key_def set_add_def split: if_splits)

text \<open>
  C7. Registering a filter key is idempotent: for every key and every state of the
  knowledge base, registering the key twice leaves the same state as registering it
  once; in particular a second call of initialize\_knowledge\_filters on the same
  knowledge base leaves it, and so its valid\_metadata\_filters, unchanged.
\<close>

theorem register_filter_key_idempotent:
  "snd (register_filter_key key (snd (register_filter_key key kb))) =
     snd (register_filter_key key kb) \<and>
   fst (snd (initialize_knowledge_filters (fst (snd (initialize_knowledge_filters kb))))) =
     fst (snd (initialize_knowledge_filters kb))"
  by (simp add: initialize_state register_filter_key_twice)

theorem register_filter_key_idempotent_witness:
  "snd (register_filter_key ''user_id''
      (snd (register_filter_key ''user_id'' \<lparr>valid_metadata_filters = Holds PNone, frozen = False\<rparr>))) =
     snd (register_filter_key ''user_id'' \<lparr>valid_metadata_filters = Holds PNone, frozen = False\<rparr>) \<and>
   fst (snd (initialize_knowledge_filters (fst (snd (initialize_knowledge_filters
      \<lparr>valid_metadata_filters = Holds PNone, frozen = False\<rparr>))))) =
     fst (snd (initialize_knowledge_filters \<lparr>valid_metadata_filters = Holds PNone, frozen = False\<rparr>))"
  by (rule register_filter_key_idempotent)

text \<open>
  C9. initialize\_knowledge\_filters propagates no exception, whatever object it is
  given: it always returns None; a failure inside it is caught and only printed, and
  then the object, and so its valid\_metadata\_filters, is left as it was; without a
  failure nothing is printed.
\<close>

theorem initialize_knowledge_filters_never_raises:
  "fst (initialize_knowledge_filters kb) = Inr PNone \<and>
   (\<forall>e. fst (register_filter_key ''user_id'' kb) = Some e \<longrightarrow>
      initialize_knowledge_filters kb = (Inr PNone, kb, [FailedInit e])) \<and>
   (fst (register_filter_key ''user_id'' kb) = None \<longrightarrow>
      snd (snd (initialize_knowledge_filters kb)) = [])"
proof (intro conjI allI impI)
  show "fst (initialize_knowledge_filters kb) = Inr PNone"
    by (simp add: initialize_knowledge_filters_def split: prod.splits option.splits)
next
  fix e assume f: "fst (register_filter_key ''user_id'' kb) = Some e"
  from register_failure_unchanged [OF f] f
  show "initialize_knowledge_filters kb = (Inr PNone, kb, [FailedInit e])"
    by (cases "register_filter_key ''user_id'' kb") (simp add: initialize_knowledge_filters_def)
next
  assume "fst (register_filter_key ''user_id'' kb) = None"
  then show "snd (snd (initialize_knowledge_filters kb)) = []"
    by (cases "register_filter_key ''user_id'' kb") (simp add: initialize_knowledge_filters_def)
qed

theorem initialize_knowledge_filters_never_raises_witness:
  "initialize_knowledge_filters \<lparr>valid_metadata_filters = Holds (PList []), frozen = False\<rparr> =
     (Inr PNone, \<lparr>valid_metadata_filters = Holds (PList []), frozen = False\<rparr>,
      [FailedInit AttributeError]) \<and>
   snd (snd (initialize_knowledge_filters \<lparr>valid_metadata_filters = Holds PNone, frozen = False\<rparr>)) = []"
proof -
  have f: "fst (register_filter_key ''user_id''
      \<lparr>valid_metadata_filters = Holds (PList []), frozen = False\<rparr>) = Some AttributeError"
    by (simp add: register_filter_key_def set_add_def)
  have s: "fst (register_filter_key ''user_id''
      \<lparr>valid_metadata_filters = Holds PNone, frozen = False\<rparr>) = None"
    by (simp add: register_filter_key_def set_add_def)
  from initialize_knowledge_filters_never_raises
         [THEN conjunct2, THEN conjunct1, rule_format, OF f]
       initialize_knowledge_filters_never_raises
         [THEN conjunct2, THEN conjunct2, rule_format, OF s]
  show ?thesis by (rule conjI)
qed

subsection \<open>The Chunker\<close>

lemma merge_units_concat:
  "concat (map fst (merge_units ch cur emb us)) = cur @ concat us"
  by (induction us arbitrary: cur emb) simp_all

lemma units_from_concat: "concat (units_from cur s) = cur @ s"
  by (induction s arbitrary: cur) simp_all

lemma units_concat: "concat (units s) = s"
  by (simp add: units_def units_from_concat)

lemma merged_units_concat:
  "concat (map fst (case units s of [] \<Rightarrow> [] | u # us \<Rightarrow> merge_units ch u (embed ch u) us)) = s"
proof (cases "units s")
  case Nil
  with units_concat [of s] show ?thesis by simp
next
  case (Cons u us)
  with units_concat [of s] show ?thesis by (simp add: merge_units_concat)
qed

lemma map_snd_enumerate_fun: "map (\<lambda>x. f (snd x)) (enumerate n xs) = map f xs"
  by (induction xs arbitrary: n) simp_all

lemma chunk_texts_in_order:
  assumes "content doc = PStr s"
  shows "concat (map chunk_text (chunk ch i doc flt)) = s"
  using assms by (simp add: chunk_def comp_def map_snd_enumerate_fun merged_units_concat)

lemma chunk_indices:
  "map sequence_index (chunk ch i doc flt) = [0..<length (chunk ch i doc flt)]"
  by (simp add: chunk_def comp_def split: pyval.splits)

lemma chunk_sorted: "sort_key sequence_index (chunk ch i doc flt) = chunk ch i doc flt"
  by (rule sort_key_id_if_sorted) (simp add: chunk_indices)

text \<open>
  C8. For every Document D, the texts of the Chunker's chunks, concatenated in
  sequence\_index order, are D's content exactly: nothing lost, nothing twice, whatever
  the embeddings and the threshold make of the units; and a Document with empty content
  yields no chunk.
\<close>

theorem chunks_reassemble_content:
  assumes "content doc = PStr s"
  shows "concat (map chunk_text (sort_key sequence_index (chunk ch i doc flt))) = s \<and>
         (s = [] \<longrightarrow> chunk ch i doc flt = [])"
proof
  show "concat (map chunk_text (sort_key sequence_index (chunk ch i doc flt))) = s"
    using assms by (simp add: chunk_sorted chunk_texts_in_order)
next
  show "s = [] \<longrightarrow> chunk ch i doc flt = []"
    using assms by (simp add: chunk_def)
qed

theorem chunks_reassemble_content_witness:
  "concat (map chunk_text (sort_key sequence_index
     (chunk apart 1 \<lparr>content = PStr ''One. Two.'', name = PStr ''T'', meta_data = []\<rparr>
        [(''user_id'', PInt 7)]))) = ''One. Two.'' \<and>
   chunk apart 1 \<lparr>content = PStr [], name = PStr ''T'', meta_data = []\<rparr> [(''user_id'', PInt 7)] = []"
proof -
  have c: "content \<lparr>content = PStr s, name = PStr ''T'', meta_data = []\<rparr> = PStr s" for s
    by simp
  from chunks_reassemble_content [OF c, THEN conjunct1]
       chunks_reassemble_content [OF c, THEN conjunct2, rule_format, OF refl]
  show ?thesis by (rule conjI)
qed

subsection \<open>The Knowledge Store\<close>

lemma init_fresh:
  assumes "valid_metadata_filters kb = Holds PNone" and "\<not> frozen kb"
  shows "registered_keys (fst (snd (initialize_knowledge_filters kb))) = {''user_id''}"
  using assms
  by (simp add: initialize_knowledge_filters_def register_filter_key_def set_add_def
      registered_keys_def)

lemma search_unregistered:
  assumes "(k, v) \<in> set flt" and "k \<notin> registered st"
  shows "search st score qv qt flt top_k = Inl InvalidFilterError"
proof -
  from assms have "\<not> list_all (\<lambda>kv. fst kv \<in> registered st) flt"
    by (force simp: list_all_iff)
  then show ?thesis by (simp add: search_def)
qed

text \<open>
  C1. For every query filter that contains a key outside the registered filter key set,
  the search of the Knowledge Store raises InvalidFilterError and does not return an
  empty result set; and after initialize\_knowledge\_filters on a knowledge base as the
  scripts construct it (no set yet), the registered keys are exactly "user\_id".
\<close>

theorem search_rejects_unregistered_key:
  "((k, v) \<in> set flt \<and> k \<notin> registered st \<longrightarrow>
      search st score qv qt flt top_k = Inl InvalidFilterError \<and>
      search st score qv qt flt top_k \<noteq> Inr []) \<and>
   (valid_metadata_filters kb = Holds PNone \<and> \<not> frozen kb \<longrightarrow>
      registered (store_of (fst (snd (initialize_knowledge_filters kb))) chunks) = {''user_id''})"
proof (intro conjI impI)
  assume h: "(k, v) \<in> set flt \<and> k \<notin> registered st"
  then show r: "search st score qv qt flt top_k = Inl InvalidFilterError"
    by (intro search_unregistered [of k v]) simp_all
  then show "search st score qv qt flt top_k \<noteq> Inr []" by simp
next
  assume "valid_metadata_filters kb = Holds PNone \<and> \<not> frozen kb"
  then show "registered (store_of (fst (snd (initialize_knowledge_filters kb))) chunks) = {''user_id''}"
    by (simp add: store_of_def init_fresh)
qed


theorem search_rejects_unregistered_key_witness:
  "search (store_of (fst (snd (initialize_knowledge_filters fresh_kb))) []) (\<lambda>qv qt c. 0) []
     ''What was her terrible habit?'' [(''account_id'', PInt 7)] 1 = Inl InvalidFilterError \<and>
   registered (store_of (fst (snd (initialize_knowledge_filters fresh_kb))) []) = {''user_id''}"
proof -
  let ?st = "store_of (fst (snd (initialize_knowledge_filters fresh_kb))) []"
  have f: "valid_metadata_filters fresh_kb = Holds PNone \<and> \<not> frozen fresh_kb"
    by (simp add: fresh_kb_def)
  note r = search_rejects_unregistered_key
             [of _ _ _ _ _ _ _ _ fresh_kb "[]", THEN conjunct2, rule_format, OF f]
  have k: "(''account_id'', PInt 7) \<in> set [(''account_id'', PInt 7)] \<and>
      ''account_id'' \<notin> registered ?st"
    by (simp add: r)
  from search_rejects_unregistered_key
         [of "''account_id''" "PInt 7" "[(''account_id'', PInt 7)]" ?st,
          THEN conjunct1, rule_format, OF k, THEN conjunct1] r
  show ?thesis by (rule conjI)
qed

end
